theory Spec2Isabelle
  imports Complex_Main "HOL-Library.AList"
begin

section \<open>Configuration and faults\<close>

text \<open>
  \<^verbatim>\<open>src/app.js\<close> reads its configuration from \<^verbatim>\<open>config.getEnv()\<close> and the profile name
  from \<^verbatim>\<open>config.getEnvName()\<close>. The class \<^verbatim>\<open>ApiConfig\<close> is imported, so both values are
  parameters of the model. An object whose keys are open (the CORS headers, the database
  table) is an association list: \<^verbatim>\<open>obj[k] = v\<close> replaces the value of an existing key in
  place and appends a new key at the end, which is what \<^const>\<open>AList.update\<close> does.
\<close>

record app_conf =
  appName :: string
  appLocale :: string
  appTimezone :: string

record ssl_conf =
  hpkpKeys :: "string list"

record server_conf =
  host :: string
  port :: nat
  secure :: bool
  cors :: "(string \<times> string) list"
  ssl :: ssl_conf

record environment =
  app :: app_conf
  server :: server_conf
  databases :: "(string \<times> string) list"

text \<open>A JavaScript \<^verbatim>\<open>Error\<close>: the handlers of the source read its \<^verbatim>\<open>stack\<close>.\<close>

record fault =
  message :: string
  stack :: string

section \<open>The observable actions of the bootstrap\<close>

text \<open>
  Every call that \<^verbatim>\<open>src/app.js\<close> makes on a collaborator is an event; a run is the list of
  its events in the order in which they happen. \<^verbatim>\<open>Listen\<close> is the call
  \<^verbatim>\<open>server.listen(port, host, _listenSuccess)\<close>; \<^verbatim>\<open>Listening\<close> is the moment the transport is
  bound and accepts connections, which is when the callback given to \<^verbatim>\<open>listen\<close> is run.
\<close>

datatype event =
    SetTZ string
  | OnUncaughtException
  | SetApp
  | UseMorgan string
  | UseBodyParser
  | UseParseQuery
  | UseCompression nat
  | MakeSecure "string list"
  | GetHTTPSServer ssl_conf
  | Listen nat string
  | SetupRoutines
  | Listening
  | SetCors "(string \<times> string) list"
  | SetLocale
  | SyncSettings
  | SetMongooseLocale
  | ConnectDatabases "(string \<times> string) list" bool
  | SyncRouters
  | ConsoleLog string
  | LogsManagerLog string
  | Throw fault
  | UnhandledRejection fault

text \<open>
  The state of the process: the shared \<^verbatim>\<open>environment\<close> object, the events so far, whether
  the promise returned by \<^verbatim>\<open>connectDatabases\<close> (with its \<^verbatim>\<open>then\<close>/\<^verbatim>\<open>catch\<close> chain) is
  outstanding, and the fault that ended the process, if one did.
\<close>

record world =
  env :: environment
  trace :: "event list"
  connecting :: bool
  exited :: "fault option"

text \<open>What the asynchronous collaborators answer: the parameters of a run.\<close>

datatype bind_outcome = Bound | BindFailed fault

datatype connect_outcome = Connected | ConnectFailed fault | ConnectPending

text \<open>
  What the runtime does with a promise that is rejected and has no handler, which the
  source does not set: Node raises it as an uncaught exception (the default from version
  15 on), or it only prints a warning (the default before).
\<close>

datatype rejections = RaiseUncaught | WarnOnly

definition emit :: "event \<Rightarrow> world \<Rightarrow> world" where
  "emit e w = w\<lparr>trace := trace w @ [e]\<rparr>"

section \<open>The functions of src/app.js\<close>

text \<open>
  \<^verbatim>\<open>process.prependListener('uncaughtException', error => {
      if (config.getEnvName() === 'development') throw error;
      else logsManager.log(error.stack); })\<close>
  A listener of \<^verbatim>\<open>uncaughtException\<close> that throws ends the process; one that returns
  leaves it running.
\<close>

definition uncaughtException :: "string \<Rightarrow> fault \<Rightarrow> world \<Rightarrow> world" where
  "uncaughtException envName error w =
     (if envName = ''development'' then (emit (Throw error) w)\<lparr>exited := Some error\<rparr>
      else emit (LogsManagerLog (stack error)) w)"

definition setupValidator :: "world \<Rightarrow> world" where
  "setupValidator w = emit SyncSettings (emit SetLocale w)"

definition setupRouters :: "world \<Rightarrow> world" where
  "setupRouters w = emit SyncRouters w"

definition appLog :: "string \<Rightarrow> string \<Rightarrow> world \<Rightarrow> world" where
  "appLog envName text w = (if envName \<noteq> ''test'' then emit (ConsoleLog text) w else w)"

definition setupCors :: "world \<Rightarrow> world" where
  "setupCors w =
     (let e = env w;
          c = AList.update ''x-powered-by'' (appName (app e)) (cors (server e));
          w' = w\<lparr>env := e\<lparr>server := (server e)\<lparr>cors := c\<rparr>\<rparr>\<rparr>
      in emit (SetCors (cors (server (env w')))) w')"

definition noDatabaseText :: string where
  "noDatabaseText = ''[!]'' @ [CHR 0x09] @ '' No database to connect.''"

definition setupDatabase :: "string \<Rightarrow> world \<Rightarrow> world" where
  "setupDatabase envName w0 =
     (let w1 = setupCors w0;
          w2 = setupValidator w1
      in if length (map fst (databases (env w2))) \<noteq> 0 then
           (let w3 = emit SetMongooseLocale w2;
                w4 = emit (ConnectDatabases (databases (env w3)) (envName \<noteq> ''test'')) w3
            in w4\<lparr>connecting := True\<rparr>)
         else setupRouters (appLog envName noDatabaseText w2))"

text \<open>The decimal text of a number, as a template literal renders the port.\<close>

fun decimal :: "nat \<Rightarrow> string" where
  "decimal n =
     (if n < 10 then [''0123456789'' ! n]
      else decimal (n div 10) @ [''0123456789'' ! (n mod 10)])"

definition statusText :: "environment \<Rightarrow> string" where
  "statusText e =
     [CHR 0x0A] @ appName (app e) @ '' on at '' @ host (server e) @ '':''
       @ decimal (port (server e)) @ [CHR 0x0A]"

definition sslOnText :: string where
  "sslOnText = ''[SSL_ON]'' @ [CHR 0x09] @ ''Secure''"

definition sslOffText :: string where
  "sslOffText = ''[SSL_OFF]'' @ [CHR 0x09] @ ''NOT SECURE (!)''"

definition listenSuccess :: "string \<Rightarrow> world \<Rightarrow> world" where
  "listenSuccess envName w0 =
     (let w1 = setupDatabase envName w0;
          w2 = appLog envName (statusText (env w1)) w1
      in if secure (server (env w2)) then appLog envName sslOnText w2
         else appLog envName sslOffText w2)"

text \<open>
  The body of the module, up to the end of its synchronous part: the callback of
  \<^verbatim>\<open>listen\<close> has not run yet when \<^verbatim>\<open>routines._setupRoutines()\<close> is called.
\<close>

definition main :: "string \<Rightarrow> environment \<Rightarrow> world" where
  "main envName e =
     (let w0 = \<lparr>env = e, trace = [], connecting = False, exited = None\<rparr>;
          w1 = emit (SetTZ (appTimezone (app e))) w0;
          w2 = emit OnUncaughtException w1;
          w3 = emit SetApp w2;
          w4 = (if envName \<noteq> ''test''
                then emit (UseMorgan (if envName = ''development'' then ''dev'' else ''combined'')) w3
                else w3);
          w5 = emit UseBodyParser w4;
          w6 = emit UseParseQuery w5;
          w7 = emit (UseCompression 100) w6;
          w8 = emit (MakeSecure (hpkpKeys (ssl (server e)))) w7;
          w9 = (if secure (server e) then emit (GetHTTPSServer (ssl (server e))) w8 else w8);
          w10 = emit (Listen (port (server e)) (host (server e))) w9
      in emit SetupRoutines w10)"

text \<open>
  The event loop after the module body. When the transport is bound the callback
  \<^verbatim>\<open>_listenSuccess\<close> runs; when binding fails the server emits \<^verbatim>\<open>error\<close>, which no
  listener of the source takes, so it reaches the \<^verbatim>\<open>uncaughtException\<close> listener and the
  callback never runs.
\<close>

definition afterListen :: "string \<Rightarrow> bind_outcome \<Rightarrow> world \<Rightarrow> world" where
  "afterListen envName b w =
     (case b of
        Bound \<Rightarrow> listenSuccess envName (emit Listening w)
      | BindFailed err \<Rightarrow> uncaughtException envName err w)"

text \<open>
  \<^verbatim>\<open>.then(() => { return _setupRouters(); }).catch(err => { throw err; })\<close>: once the
  promise of \<^verbatim>\<open>connectDatabases\<close> settles, and after the synchronous rest of
  \<^verbatim>\<open>_listenSuccess\<close>. The \<^verbatim>\<open>catch\<close> handler throws the error again, so the chain ends in a
  rejected promise that nothing in the source handles. Where the runtime raises such a
  rejection as an uncaught exception, the \<^verbatim>\<open>uncaughtException\<close> listener of the source
  is run with the error.
\<close>

definition afterConnect ::
  "rejections \<Rightarrow> string \<Rightarrow> connect_outcome \<Rightarrow> world \<Rightarrow> world" where
  "afterConnect rj envName c w =
     (if connecting w then
        (case c of
           Connected \<Rightarrow> setupRouters (w\<lparr>connecting := False\<rparr>)
         | ConnectFailed err \<Rightarrow>
             (let w' = emit (UnhandledRejection err) (w\<lparr>connecting := False\<rparr>)
              in case rj of
                   RaiseUncaught \<Rightarrow> uncaughtException envName err w'
                 | WarnOnly \<Rightarrow> w')
         | ConnectPending \<Rightarrow> w)
      else w)"

definition run ::
  "rejections \<Rightarrow> string \<Rightarrow> environment \<Rightarrow> bind_outcome \<Rightarrow> connect_outcome \<Rightarrow> world" where
  "run rj envName e b c =
     afterConnect rj envName c (afterListen envName b (main envName e))"

subsection \<open>Reading a run\<close>

text \<open>
  \<open>precedes a b evs\<close>: the event \<open>b\<close> does not happen in \<open>evs\<close> unless \<open>a\<close> has happened
  before it.
\<close>

fun precedes :: "'a \<Rightarrow> 'a \<Rightarrow> 'a list \<Rightarrow> bool" where
  "precedes a b [] = True"
| "precedes a b (x # xs) = (if x = a then True else if x = b then False else precedes a b xs)"

text \<open>The events that are steps of the startup sequence, as opposed to logging and wiring.\<close>

definition lifecycle :: "event \<Rightarrow> bool" where
  "lifecycle ev =
     (case ev of
        MakeSecure _ \<Rightarrow> True | Listen _ _ \<Rightarrow> True | Listening \<Rightarrow> True | SetCors _ \<Rightarrow> True
      | SetLocale \<Rightarrow> True | SyncSettings \<Rightarrow> True | ConnectDatabases _ _ \<Rightarrow> True
      | SyncRouters \<Rightarrow> True | _ \<Rightarrow> False)"

text \<open>The environment once \<^verbatim>\<open>_setupCors\<close> has written the header into it.\<close>

definition poweredBy :: "environment \<Rightarrow> environment" where
  "poweredBy e =
     e\<lparr>server := (server e)\<lparr>cors :=
        AList.update ''x-powered-by'' (appName (app e)) (cors (server e))\<rparr>\<rparr>"

definition sslText :: "environment \<Rightarrow> string" where
  "sslText e = (if secure (server e) then sslOnText else sslOffText)"

text \<open>Two configurations and a fault, for the concrete runs below.\<close>

definition env0 :: environment where
  "env0 =
     \<lparr>app = \<lparr>appName = ''api'', appLocale = ''en'', appTimezone = ''UTC''\<rparr>,
      server = \<lparr>host = ''localhost'', port = 3000, secure = False,
                cors = [(''origin'', ''*'')], ssl = \<lparr>hpkpKeys = []\<rparr>\<rparr>,
      databases = [(''main'', ''mongodb://localhost/app'')]\<rparr>"

definition envNoDb :: environment where
  "envNoDb = env0\<lparr>databases := []\<rparr>"

definition boom :: fault where
  "boom = \<lparr>message = ''connection refused'', stack = ''Error: connection refused at connect''\<rparr>"

section \<open>The pagination engine\<close>

text \<open>
  \<^verbatim>\<open>src/api/courses/read.js\<close> calls \<^verbatim>\<open>Courses.paginate(aggregate, limit, page)\<close>; the method
  itself is not among the source files, so it is modelled from the specification, together
  with the two reads of the datastore that it is specified to make.
\<close>

text \<open>
  Modelled from the spec: the Datastore collaborator. A store is unreachable or holds a
  sequence of records; an aggregate filter is malformed or selects records.
\<close>

datatype 'r datastore = Unreachable fault | Store "'r list"

datatype 'r aggregate = Malformed fault | Matching "'r \<Rightarrow> bool"

text \<open>Modelled from the spec: \<^verbatim>\<open>countMatching(filter)\<close>, the number of matching records.\<close>

definition countMatching :: "'r datastore \<Rightarrow> 'r aggregate \<Rightarrow> fault + int" where
  "countMatching ds f =
     (case ds of
        Unreachable err \<Rightarrow> Inl err
      | Store rs \<Rightarrow>
          (case f of Malformed err \<Rightarrow> Inl err | Matching p \<Rightarrow> Inr (int (length (filter p rs)))))"

text \<open>
  Modelled from the spec: \<^verbatim>\<open>fetch(filter, skip, limit)\<close>, the matching records after the first
  \<open>skip\<close>, at most \<open>limit\<close> of them.
\<close>

definition fetch :: "'r datastore \<Rightarrow> 'r aggregate \<Rightarrow> int \<Rightarrow> int \<Rightarrow> fault + 'r list" where
  "fetch ds f skip lmt =
     (case ds of
        Unreachable err \<Rightarrow> Inl err
      | Store rs \<Rightarrow>
          (case f of
             Malformed err \<Rightarrow> Inl err
           | Matching p \<Rightarrow> Inr (take (nat lmt) (drop (nat skip) (filter p rs)))))"

text \<open>
  The result of \<^verbatim>\<open>paginate\<close>. The handler reads the items as \<^verbatim>\<open>result.data\<close> and the page
  metadata as \<^verbatim>\<open>result.paginate\<close> (here \<open>paginateMeta\<close>); the fields of the metadata are
  those of the specification.
\<close>

record page_meta =
  totalCount :: int
  page :: int
  limit :: int
  pageCount :: int

record 'r page_result =
  data :: "'r list"
  paginateMeta :: page_meta

text \<open>
  Modelled from the spec: \<^verbatim>\<open>paginate(filter, limit, page)\<close> computes
  \<^verbatim>\<open>skip = (page - 1) * limit\<close>, asks the datastore for the count and for the items, and
  returns them with \<^verbatim>\<open>pageCount = ceil(totalCount / limit)\<close>; a failure of the datastore is
  the failure of the call. The two reads are not transactionally linked, and a write may
  reach the store between them: \<open>ds\<close> is the store as the count reads it, \<open>ds'\<close> the store
  as the fetch reads it. The specification leaves a request with \<open>limit < 1\<close> or
  \<open>page < 1\<close> to the datastore, and nothing below is stated about one.
\<close>

definition paginate ::
  "'r datastore \<Rightarrow> 'r datastore \<Rightarrow> 'r aggregate \<Rightarrow> int \<Rightarrow> int \<Rightarrow> fault + 'r page_result" where
  "paginate ds ds' f lmt pg =
     (let skip = (pg - 1) * lmt in
      case countMatching ds f of
        Inl err \<Rightarrow> Inl err
      | Inr cnt \<Rightarrow>
          (case fetch ds' f skip lmt of
             Inl err \<Rightarrow> Inl err
           | Inr items \<Rightarrow>
               Inr \<lparr>data = items,
                    paginateMeta = \<lparr>totalCount = cnt, page = pg, limit = lmt,
                                    pageCount = \<lceil>real_of_int cnt / real_of_int lmt\<rceil>\<rparr>\<rparr>))"

text \<open>The filter that selects all records.\<close>

definition everyRecord :: "'r aggregate" where
  "everyRecord = Matching (\<lambda>r. True)"

section \<open>The request handlers\<close>

text \<open>
  A handler answers through \<^verbatim>\<open>res.api.send(payload, code, meta)\<close> or hands the request on
  through \<^verbatim>\<open>next()\<close>. Both belong to imported code, so the model records the calls: an
  exchange is the list of the \<^verbatim>\<open>send\<close> calls made on the response, each with its three
  arguments, and the number of calls of \<^verbatim>\<open>next\<close>. The codes are the members of
  \<^verbatim>\<open>res.api.codes\<close> that the source files name.
\<close>

datatype code = OK | UNPROCESSABLE_ENTITY | INTERNAL_SERVER_ERROR

datatype segment = Key string | Index nat

record detail =
  path :: "segment list"
  errorType :: string

datatype 'r payload = Items "'r list" | Text string | Details "detail list"

datatype 'r sent = Send "'r payload" code "(string \<times> page_meta) list option"

record 'r exchange =
  sent :: "'r sent list"
  nextCalls :: nat

definition send ::
  "'r payload \<Rightarrow> code \<Rightarrow> (string \<times> page_meta) list option \<Rightarrow> 'r exchange \<Rightarrow> 'r exchange" where
  "send p c m x = x\<lparr>sent := sent x @ [Send p c m]\<rparr>"


definition fresh :: "'r exchange" where
  "fresh = \<lparr>sent = [], nextCalls = 0\<rparr>"

text \<open>\<^verbatim>\<open>req.query\<close>, as \<^verbatim>\<open>listCourses\<close> reads it: \<^verbatim>\<open>aggregate\<close>, \<^verbatim>\<open>limit\<close> and \<^verbatim>\<open>page\<close>.\<close>

record 'f query =
  aggregate :: 'f
  queryLimit :: int
  queryPage :: int

text \<open>
  \<^verbatim>\<open>Courses.paginate(req.query.aggregate, req.query.limit, req.query.page)
     .then(result => res.api.send(result.data, res.api.codes.OK, {paginate: result.paginate}))
     .catch(err => res.api.send(err.stack, res.api.codes.INTERNAL_SERVER_ERROR))\<close>
  The first argument is the \<^verbatim>\<open>paginate\<close> method of the model, with the way its promise
  settles as its value: \<open>Inr\<close> when it is fulfilled, \<open>Inl\<close> when it is rejected. The method
  is not given the response.
\<close>

definition listCourses ::
  "('f \<Rightarrow> int \<Rightarrow> int \<Rightarrow> fault + 'r page_result) \<Rightarrow> 'f query \<Rightarrow> 'r exchange \<Rightarrow> 'r exchange" where
  "listCourses Courses_paginate q res =
     (case Courses_paginate (aggregate q) (queryLimit q) (queryPage q) of
        Inr result \<Rightarrow> send (Items (data result)) OK (Some [(''paginate'', paginateMeta result)]) res
      | Inl err \<Rightarrow> send (Text (stack err)) INTERNAL_SERVER_ERROR None res)"

section \<open>The validator of an artist update\<close>

text \<open>
  \<^verbatim>\<open>req.body\<close> is a JSON value. A JavaScript object has each key once; the association list
  of \<open>JObj\<close> is read with \<^const>\<open>map_of\<close>. A string has one \<^typ>\<open>char\<close> for each code unit.
\<close>

datatype json =
    JNull | JBool bool | JNum rat | JStr string | JArr "json list" | JObj "(string \<times> json) list"

















section \<open>Facts about a run\<close>

lemma emit_sel [simp]:
  "trace (emit ev w) = trace w @ [ev]" "env (emit ev w) = env w"
  "connecting (emit ev w) = connecting w" "exited (emit ev w) = exited w"
  by (simp_all add: emit_def)

lemma appLog_sel [simp]:
  "trace (appLog n t w) = trace w @ (if n \<noteq> ''test'' then [ConsoleLog t] else [])"
  "env (appLog n t w) = env w"
  "connecting (appLog n t w) = connecting w" "exited (appLog n t w) = exited w"
  by (simp_all add: appLog_def)

lemma poweredBy_sel [simp]:
  "app (poweredBy e) = app e" "databases (poweredBy e) = databases e"
  "host (server (poweredBy e)) = host (server e)" "port (server (poweredBy e)) = port (server e)"
  "secure (server (poweredBy e)) = secure (server e)" "ssl (server (poweredBy e)) = ssl (server e)"
  "cors (server (poweredBy e)) = AList.update ''x-powered-by'' (appName (app e)) (cors (server e))"
  by (simp_all add: poweredBy_def)

lemma setupCors_sel [simp]:
  "trace (setupCors w) = trace w @ [SetCors (cors (server (poweredBy (env w))))]"
  "env (setupCors w) = poweredBy (env w)"
  "connecting (setupCors w) = connecting w" "exited (setupCors w) = exited w"
  by (simp_all add: setupCors_def poweredBy_def Let_def)

lemma setupValidator_sel [simp]:
  "trace (setupValidator w) = trace w @ [SetLocale, SyncSettings]"
  "env (setupValidator w) = env w"
  "connecting (setupValidator w) = connecting w" "exited (setupValidator w) = exited w"
  by (simp_all add: setupValidator_def)

lemma setupRouters_sel [simp]:
  "trace (setupRouters w) = trace w @ [SyncRouters]"
  "env (setupRouters w) = env w"
  "connecting (setupRouters w) = connecting w" "exited (setupRouters w) = exited w"
  by (simp_all add: setupRouters_def)

lemma setupDatabase_sel:
  "trace (setupDatabase n w) =
     trace w @ [SetCors (cors (server (poweredBy (env w)))), SetLocale, SyncSettings]
     @ (if databases (env w) \<noteq> []
        then [SetMongooseLocale, ConnectDatabases (databases (env w)) (n \<noteq> ''test'')]
        else (if n \<noteq> ''test'' then [ConsoleLog noDatabaseText] else []) @ [SyncRouters])"
  "env (setupDatabase n w) = poweredBy (env w)"
  "connecting (setupDatabase n w) = (if databases (env w) \<noteq> [] then True else connecting w)"
  "exited (setupDatabase n w) = exited w"
  by (simp_all add: setupDatabase_def Let_def)

lemma listenSuccess_sel:
  "trace (listenSuccess n w) =
     trace (setupDatabase n w)
     @ (if n \<noteq> ''test''
        then [ConsoleLog (statusText (poweredBy (env w))), ConsoleLog (sslText (env w))] else [])"
  "env (listenSuccess n w) = poweredBy (env w)"
  "connecting (listenSuccess n w) = (if databases (env w) \<noteq> [] then True else connecting w)"
  "exited (listenSuccess n w) = exited w"
  by (simp_all add: listenSuccess_def Let_def setupDatabase_sel sslText_def)

lemma main_sel:
  "trace (main n e) =
     [SetTZ (appTimezone (app e)), OnUncaughtException, SetApp]
     @ (if n \<noteq> ''test'' then [UseMorgan (if n = ''development'' then ''dev'' else ''combined'')]
        else [])
     @ [UseBodyParser, UseParseQuery, UseCompression 100, MakeSecure (hpkpKeys (ssl (server e)))]
     @ (if secure (server e) then [GetHTTPSServer (ssl (server e))] else [])
     @ [Listen (port (server e)) (host (server e)), SetupRoutines]"
  "env (main n e) = e" "connecting (main n e) = False" "exited (main n e) = None"
  by (simp_all add: main_def Let_def)

text \<open>The whole run when the transport binds, and when it does not.\<close>

lemma trace_run_Bound:
  "trace (run rj n e Bound c) =
     trace (main n e)
     @ [Listening, SetCors (cors (server (poweredBy e))), SetLocale, SyncSettings]
     @ (if databases e \<noteq> [] then
          [SetMongooseLocale, ConnectDatabases (databases e) (n \<noteq> ''test'')]
          @ (if n \<noteq> ''test'' then [ConsoleLog (statusText (poweredBy e)), ConsoleLog (sslText e)]
             else [])
          @ (case c of
               Connected \<Rightarrow> [SyncRouters]
             | ConnectFailed err \<Rightarrow>
                 UnhandledRejection err
                 # (case rj of
                      RaiseUncaught \<Rightarrow>
                        [if n = ''development'' then Throw err else LogsManagerLog (stack err)]
                    | WarnOnly \<Rightarrow> [])
             | ConnectPending \<Rightarrow> [])
        else
          (if n \<noteq> ''test'' then [ConsoleLog noDatabaseText] else []) @ [SyncRouters]
          @ (if n \<noteq> ''test'' then [ConsoleLog (statusText (poweredBy e)), ConsoleLog (sslText e)]
             else []))"
  by (simp add: run_def afterConnect_def afterListen_def listenSuccess_sel setupDatabase_sel
      main_sel(2-4) uncaughtException_def Let_def split: connect_outcome.split rejections.split)

lemma trace_run_BindFailed:
  "trace (run rj n e (BindFailed err) c) =
     trace (main n e) @ [if n = ''development'' then Throw err else LogsManagerLog (stack err)]"
  by (simp add: run_def afterConnect_def afterListen_def uncaughtException_def main_sel(2-4))

lemma env_run: "env (run rj n e b c) = (case b of Bound \<Rightarrow> poweredBy e | BindFailed err \<Rightarrow> e)"
  by (simp add: run_def afterConnect_def afterListen_def uncaughtException_def listenSuccess_sel
      main_sel(2-4) Let_def split: connect_outcome.split bind_outcome.split rejections.split)

lemma exited_run_BindFailed:
  "exited (run rj n e (BindFailed err) c) = (if n = ''development'' then Some err else None)"
  by (simp add: run_def afterConnect_def afterListen_def uncaughtException_def main_sel(2-4))

lemma exited_run_ConnectFailed:
  "databases e \<noteq> [] \<Longrightarrow>
   exited (run rj n e Bound (ConnectFailed err)) =
     (if rj = RaiseUncaught \<and> n = ''development'' then Some err else None)"
  by (simp add: run_def afterConnect_def afterListen_def uncaughtException_def listenSuccess_sel
      main_sel(2-4) Let_def split: rejections.split)

lemma run_RaiseUncaught:
  "databases e \<noteq> [] \<Longrightarrow>
   run RaiseUncaught n e Bound (ConnectFailed err) =
     uncaughtException n err (run WarnOnly n e Bound (ConnectFailed err))"
  by (simp add: run_def afterConnect_def afterListen_def listenSuccess_sel main_sel(2-4) Let_def)

lemma precedes_append:
  "precedes a b (xs @ ys) = (precedes a b xs \<and> (a \<in> set xs \<or> precedes a b ys))"
  by (induction xs) auto

lemma texts_differ:
  "statusText e \<noteq> noDatabaseText" "sslText e \<noteq> noDatabaseText"
  by (simp_all add: statusText_def noDatabaseText_def sslText_def sslOnText_def sslOffText_def)

section \<open>The startup sequence\<close>

text \<open>
  C1 (as the code has it). The transport is bound first and the setup runs in the callback
  of \<^verbatim>\<open>listen\<close>: in every run in which the transport binds and the datastore, if one is
  configured, connects, the steps of startup happen in the order hardening headers
  (\<open>MakeSecure\<close>), \<open>Listen\<close>, transport bound (\<open>Listening\<close>), CORS headers, validation
  (\<open>SetLocale\<close>, \<open>SyncSettings\<close>), datastore connection when one is configured, route
  registration (\<open>SyncRouters\<close>). In every run, whatever the collaborators answer, routes are
  registered only after the transport is bound.
\<close>

theorem startup_order:
  "filter lifecycle (trace (run rj envName e Bound Connected)) =
     [MakeSecure (hpkpKeys (ssl (server e))), Listen (port (server e)) (host (server e)),
      Listening,
      SetCors (AList.update ''x-powered-by'' (appName (app e)) (cors (server e))),
      SetLocale, SyncSettings]
     @ (if databases e \<noteq> [] then [ConnectDatabases (databases e) (envName \<noteq> ''test'')] else [])
     @ [SyncRouters]
   \<and> precedes Listening SyncRouters (trace (run rj envName e b c))"
proof
  show "filter lifecycle (trace (run rj envName e Bound Connected)) =
     [MakeSecure (hpkpKeys (ssl (server e))), Listen (port (server e)) (host (server e)),
      Listening,
      SetCors (AList.update ''x-powered-by'' (appName (app e)) (cors (server e))),
      SetLocale, SyncSettings]
     @ (if databases e \<noteq> [] then [ConnectDatabases (databases e) (envName \<noteq> ''test'')] else [])
     @ [SyncRouters]"
    by (simp add: trace_run_Bound main_sel lifecycle_def)
  show "precedes Listening SyncRouters (trace (run rj envName e b c))"
    by (cases b; cases c)
      (simp_all add: trace_run_Bound trace_run_BindFailed main_sel precedes_append)
qed

theorem startup_order_witness:
  "filter lifecycle (trace (run RaiseUncaught ''production'' env0 Bound Connected)) =
     [MakeSecure [], Listen 3000 ''localhost'', Listening,
      SetCors [(''origin'', ''*''), (''x-powered-by'', ''api'')], SetLocale, SyncSettings,
      ConnectDatabases [(''main'', ''mongodb://localhost/app'')] True, SyncRouters]"
  using startup_order [of RaiseUncaught "''production''" env0 Bound Connected] by (simp add: env0_def)

text \<open>
  C1 as the specification states it fails: in this run the transport is bound, and the
  service accepts connections, before the routes are registered.
\<close>

theorem startup_order_counterexample:
  "\<not> precedes SyncRouters Listening (trace (run RaiseUncaught ''production'' env0 Bound Connected))"
  by (simp add: trace_run_Bound main_sel env0_def)

text \<open>
  C2 (as the code has it). In every run with at least one database configured in which the
  transport binds and the connection fails, the routes are never registered and the
  \<^verbatim>\<open>catch\<close> handler throws the error again; on a runtime that raises an unhandled
  rejection as an uncaught exception, the error reaches the process-level fault handler,
  which ends the process under the development profile and logs the stack trace of the
  error under any other. The transport had been bound, so that the service was accepting
  connections, before the connection was asked for.
\<close>

theorem connect_failure:
  assumes "databases e \<noteq> []"
  shows "SyncRouters \<notin> set (trace (run rj envName e Bound (ConnectFailed err)))
       \<and> UnhandledRejection err \<in> set (trace (run rj envName e Bound (ConnectFailed err)))
       \<and> run RaiseUncaught envName e Bound (ConnectFailed err)
           = uncaughtException envName err (run WarnOnly envName e Bound (ConnectFailed err))
       \<and> last (trace (run RaiseUncaught envName e Bound (ConnectFailed err)))
           = (if envName = ''development'' then Throw err else LogsManagerLog (stack err))
       \<and> exited (run RaiseUncaught envName e Bound (ConnectFailed err))
           = (if envName = ''development'' then Some err else None)
       \<and> Listening \<in> set (trace (run rj envName e Bound (ConnectFailed err)))
       \<and> precedes Listening (ConnectDatabases (databases e) (envName \<noteq> ''test''))
            (trace (run rj envName e Bound (ConnectFailed err)))"
proof -
  have routes: "SyncRouters \<notin> set (trace (run rj envName e Bound (ConnectFailed err)))"
    using assms by (cases rj) (simp_all add: trace_run_Bound main_sel)
  have thrown: "UnhandledRejection err \<in> set (trace (run rj envName e Bound (ConnectFailed err)))"
    using assms by (simp add: trace_run_Bound)
  have handler: "run RaiseUncaught envName e Bound (ConnectFailed err)
      = uncaughtException envName err (run WarnOnly envName e Bound (ConnectFailed err))"
    using assms by (rule run_RaiseUncaught)
  have lst: "last (trace (run RaiseUncaught envName e Bound (ConnectFailed err)))
      = (if envName = ''development'' then Throw err else LogsManagerLog (stack err))"
    using assms by (simp add: trace_run_Bound)
  have ex: "exited (run RaiseUncaught envName e Bound (ConnectFailed err))
      = (if envName = ''development'' then Some err else None)"
    using assms by (simp add: exited_run_ConnectFailed)
  have bound: "Listening \<in> set (trace (run rj envName e Bound (ConnectFailed err)))"
    by (simp add: trace_run_Bound)
  have before: "precedes Listening (ConnectDatabases (databases e) (envName \<noteq> ''test''))
      (trace (run rj envName e Bound (ConnectFailed err)))"
    by (simp add: trace_run_Bound main_sel precedes_append)
  from routes thrown handler lst ex bound before show ?thesis by simp
qed

theorem connect_failure_witness:
  "databases env0 \<noteq> []
   \<and> SyncRouters \<notin> set (trace (run RaiseUncaught ''production'' env0 Bound (ConnectFailed boom)))
   \<and> last (trace (run RaiseUncaught ''production'' env0 Bound (ConnectFailed boom)))
       = LogsManagerLog (stack boom)
   \<and> exited (run RaiseUncaught ''development'' env0 Bound (ConnectFailed boom)) = Some boom"
proof -
  have db: "databases env0 \<noteq> []" by (simp add: env0_def)
  have prod: "SyncRouters
        \<notin> set (trace (run RaiseUncaught ''production'' env0 Bound (ConnectFailed boom)))
      \<and> last (trace (run RaiseUncaught ''production'' env0 Bound (ConnectFailed boom)))
        = (if ''production'' = ''development'' then Throw boom else LogsManagerLog (stack boom))"
    using connect_failure [OF db, of RaiseUncaught "''production''" boom] by blast
  have dev: "exited (run RaiseUncaught ''development'' env0 Bound (ConnectFailed boom))
      = (if ''development'' = ''development'' then Some boom else None)"
    using connect_failure [OF db, of RaiseUncaught "''development''" boom] by blast
  from db prod dev show ?thesis by simp
qed

text \<open>
  C2 as the specification states it fails: with a database configured and a connection that
  fails, the serving state has been reached all the same, since the transport is bound,
  whatever the runtime does with the rejection.
\<close>

theorem connect_failure_counterexample:
  "databases env0 \<noteq> []
   \<and> Listening \<in> set (trace (run RaiseUncaught ''production'' env0 Bound (ConnectFailed boom)))
   \<and> Listening \<in> set (trace (run WarnOnly ''production'' env0 Bound (ConnectFailed boom)))"
  by (simp add: trace_run_Bound main_sel env0_def)

text \<open>
  C5. The listener of \<^verbatim>\<open>uncaughtException\<close> is installed before any step of startup. Under
  the development profile it throws the fault again, which ends the process; under any
  other profile it hands the stack trace of the fault to the logs manager and returns, so
  the process goes on and the environment is untouched. A transport that fails to bind is
  such a fault.
\<close>

theorem fault_policy:
  "take 2 (trace (run rj envName e b c)) = [SetTZ (appTimezone (app e)), OnUncaughtException]
   \<and> (envName = ''development'' \<longrightarrow>
        trace (uncaughtException envName err w) = trace w @ [Throw err]
        \<and> exited (uncaughtException envName err w) = Some err
        \<and> exited (run rj envName e (BindFailed err) c) = Some err)
   \<and> (envName \<noteq> ''development'' \<longrightarrow>
        trace (uncaughtException envName err w) = trace w @ [LogsManagerLog (stack err)]
        \<and> exited (uncaughtException envName err w) = exited w
        \<and> env (uncaughtException envName err w) = env w
        \<and> exited (run rj envName e (BindFailed err) c) = None
        \<and> last (trace (run rj envName e (BindFailed err) c)) = LogsManagerLog (stack err))"
proof -
  have "take 2 (trace (run rj envName e b c)) = [SetTZ (appTimezone (app e)), OnUncaughtException]"
    by (cases b) (simp_all add: trace_run_Bound trace_run_BindFailed main_sel)
  then show ?thesis
    by (simp add: uncaughtException_def exited_run_BindFailed trace_run_BindFailed)
qed

theorem fault_policy_witness:
  "exited (uncaughtException ''development'' boom (main ''development'' env0)) = Some boom
   \<and> exited (uncaughtException ''production'' boom (main ''production'' env0)) = None
   \<and> last (trace (uncaughtException ''production'' boom (main ''production'' env0)))
       = LogsManagerLog ''Error: connection refused at connect''"
  using fault_policy [of RaiseUncaught "''development''" env0 Bound Connected boom "main ''development'' env0"]
    fault_policy [of RaiseUncaught "''production''" env0 Bound Connected boom "main ''production'' env0"]
  by (simp add: main_sel boom_def)

text \<open>
  C6 (as the code has it). Startup writes to the environment once: \<^verbatim>\<open>_setupCors\<close>, run in
  the callback of \<^verbatim>\<open>listen\<close>, sets the key \<^verbatim>\<open>x-powered-by\<close> of \<^verbatim>\<open>server.cors\<close> to
  \<^verbatim>\<open>app.name\<close>. Nothing else of the environment changes in any run: \<^verbatim>\<open>app\<close>, \<^verbatim>\<open>databases\<close>
  and the other fields of \<^verbatim>\<open>server\<close> are at the end what they were at the start. The two
  request handlers above are not given the environment.
\<close>

theorem environment_after_startup:
  "env (run rj envName e b c) =
     (case b of
        Bound \<Rightarrow>
          e\<lparr>server := (server e)\<lparr>cors :=
             AList.update ''x-powered-by'' (appName (app e)) (cors (server e))\<rparr>\<rparr>
      | BindFailed err \<Rightarrow> e)
   \<and> app (env (run rj envName e b c)) = app e
   \<and> databases (env (run rj envName e b c)) = databases e
   \<and> host (server (env (run rj envName e b c))) = host (server e)
   \<and> port (server (env (run rj envName e b c))) = port (server e)
   \<and> secure (server (env (run rj envName e b c))) = secure (server e)
   \<and> ssl (server (env (run rj envName e b c))) = ssl (server e)"
  by (cases b) (simp_all add: env_run poweredBy_def)

theorem environment_after_startup_witness:
  "cors (server (env (run RaiseUncaught ''production'' env0 Bound Connected)))
     = [(''origin'', ''*''), (''x-powered-by'', ''api'')]
   \<and> databases (env (run RaiseUncaught ''production'' env0 Bound Connected)) = databases env0"
  using environment_after_startup [of RaiseUncaught "''production''" env0 Bound Connected]
  by (simp add: env0_def)

text \<open>
  C6 as the specification states it fails: after this run the environment is not the one
  the process started with.
\<close>

theorem environment_immutable_counterexample:
  "env (run RaiseUncaught ''production'' env0 Bound Connected) \<noteq> env0"
  by (simp add: env_run poweredBy_def env0_def)

text \<open>
  C7 (as the code has it). In every run with no database configured, the datastore is never
  asked to connect. When the transport binds, the callback of \<^verbatim>\<open>listen\<close> sets the CORS
  headers and the validator, writes the note \<^verbatim>\<open>No database to connect\<close> unless the profile
  is \<^verbatim>\<open>test\<close>, and registers the routes at once, so that the service is bound with its
  routes registered and no connection outstanding.
\<close>

theorem no_database_startup:
  assumes "databases e = []"
  shows "(\<forall>dbs v. ConnectDatabases dbs v \<notin> set (trace (run rj envName e b c)))
       \<and> trace (run rj envName e Bound c) =
           trace (main envName e)
           @ [Listening,
              SetCors (AList.update ''x-powered-by'' (appName (app e)) (cors (server e))),
              SetLocale, SyncSettings]
           @ (if envName \<noteq> ''test'' then [ConsoleLog noDatabaseText] else [])
           @ [SyncRouters]
           @ (if envName \<noteq> ''test''
              then [ConsoleLog (statusText e), ConsoleLog (sslText e)] else [])
       \<and> (ConsoleLog noDatabaseText \<in> set (trace (run rj envName e Bound c))) = (envName \<noteq> ''test'')
       \<and> connecting (run rj envName e Bound c) = False"
proof -
  have st: "statusText (poweredBy e) = statusText e"
    by (simp add: statusText_def)
  have "\<forall>dbs v. ConnectDatabases dbs v \<notin> set (trace (run rj envName e b c))"
    using assms by (cases b) (simp_all add: trace_run_Bound trace_run_BindFailed main_sel)
  moreover have "connecting (run rj envName e Bound c) = False"
    using assms
    by (simp add: run_def afterConnect_def afterListen_def listenSuccess_sel main_sel(2-4))
  moreover have "(ConsoleLog noDatabaseText \<in> set (trace (run rj envName e Bound c)))
      = (envName \<noteq> ''test'')"
    using assms texts_differ [of e] texts_differ [of "poweredBy e"]
    by (simp add: trace_run_Bound main_sel)
  ultimately show ?thesis
    using assms by (simp add: trace_run_Bound st)
qed

theorem no_database_startup_witness:
  "databases envNoDb = []
   \<and> ConsoleLog noDatabaseText \<in> set (trace (run RaiseUncaught ''production'' envNoDb Bound Connected))
   \<and> connecting (run RaiseUncaught ''production'' envNoDb Bound Connected) = False"
proof -
  have db: "databases envNoDb = []" by (simp add: envNoDb_def)
  from no_database_startup [OF db, of RaiseUncaught "''production''" Bound Connected] db
  show ?thesis by simp
qed

text \<open>
  C7 as the specification states it fails: under the \<^verbatim>\<open>test\<close> profile a run with no
  database configured writes no note.
\<close>

theorem no_database_note_counterexample:
  "databases envNoDb = []
   \<and> ConsoleLog noDatabaseText \<notin> set (trace (run RaiseUncaught ''test'' envNoDb Bound Connected))"
  by (simp add: trace_run_Bound main_sel envNoDb_def env0_def)

text \<open>
  C8. In every run, with databases or without, whatever the collaborators answer, the
  validator has been given its locale (\<open>SetLocale\<close>) and has synchronised its settings
  (\<open>SyncSettings\<close>) before the routes are registered; and the routes are registered exactly
  in the runs in which the transport binds and either no database is configured or the
  connection succeeds.
\<close>

theorem validation_before_routes:
  "precedes SyncSettings SyncRouters (trace (run rj envName e b c))
   \<and> precedes SetLocale SyncSettings (trace (run rj envName e b c))
   \<and> (SyncRouters \<in> set (trace (run rj envName e b c)))
       = (b = Bound \<and> (databases e = [] \<or> c = Connected))"
  by (cases b; cases c)
    (simp_all add: trace_run_Bound trace_run_BindFailed main_sel precedes_append)

theorem validation_before_routes_witness:
  "precedes SyncSettings SyncRouters (trace (run RaiseUncaught ''production'' env0 Bound Connected))
   \<and> SyncRouters \<in> set (trace (run RaiseUncaught ''production'' env0 Bound Connected))
   \<and> precedes SyncSettings SyncRouters (trace (run RaiseUncaught ''test'' envNoDb Bound ConnectPending))
   \<and> SyncRouters \<in> set (trace (run RaiseUncaught ''test'' envNoDb Bound ConnectPending))"
  using validation_before_routes [of RaiseUncaught "''production''" env0 Bound Connected]
    validation_before_routes [of RaiseUncaught "''test''" envNoDb Bound ConnectPending]
  by (simp add: envNoDb_def)

section \<open>Pagination\<close>

lemma ceiling_quotient_bounds:
  fixes cnt lmt :: int
  assumes "1 \<le> lmt"
  shows "lmt * (\<lceil>real_of_int cnt / real_of_int lmt\<rceil> - 1) < cnt"
    and "cnt \<le> lmt * \<lceil>real_of_int cnt / real_of_int lmt\<rceil>"
proof -
  let ?x = "real_of_int cnt / real_of_int lmt"
  have pos: "0 < real_of_int lmt" using assms by simp
  have "real_of_int \<lceil>?x\<rceil> - 1 < ?x" by linarith
  then have "(real_of_int \<lceil>?x\<rceil> - 1) * real_of_int lmt < real_of_int cnt"
    by (rule iffD1 [OF pos_less_divide_eq [OF pos]])
  then have "real_of_int (lmt * (\<lceil>?x\<rceil> - 1)) < real_of_int cnt"
    by (simp add: mult.commute)
  then show "lmt * (\<lceil>?x\<rceil> - 1) < cnt" by linarith
  have "real_of_int cnt \<le> real_of_int \<lceil>?x\<rceil> * real_of_int lmt"
    by (rule iffD1 [OF pos_divide_le_eq [OF pos]]) (rule le_of_int_ceiling)
  then have "real_of_int cnt \<le> real_of_int (lmt * \<lceil>?x\<rceil>)"
    by (simp add: mult.commute)
  then show "cnt \<le> lmt * \<lceil>?x\<rceil>" by linarith
qed

lemma paginate_Inr:
  assumes "paginate ds ds' f lmt pg = Inr r"
  obtains rs rs' p where "ds = Store rs" and "ds' = Store rs'" and "f = Matching p"
    and "r = \<lparr>data = take (nat lmt) (drop (nat ((pg - 1) * lmt)) (filter p rs')),
              paginateMeta = \<lparr>totalCount = int (length (filter p rs)), page = pg, limit = lmt,
                pageCount = \<lceil>real_of_int (int (length (filter p rs))) / real_of_int lmt\<rceil>\<rparr>\<rparr>"
  using assms
  by (cases ds; cases ds'; cases f) (auto simp: paginate_def countMatching_def fetch_def)

text \<open>
  C3. For every call of \<^verbatim>\<open>paginate\<close> with \<open>limit \<ge> 1\<close> and \<open>page \<ge> 1\<close> that succeeds, the
  result has at most \<open>limit\<close> items, its \<open>totalCount\<close> is the count the datastore gives for
  the filter, and its \<open>pageCount\<close> is \<open>ceil(totalCount / limit)\<close>: the least number of pages
  of \<open>limit\<close> items that hold \<open>totalCount\<close> items, which is 0 when \<open>totalCount\<close> is 0. This
  holds whatever is written to the store between the two reads.
\<close>

theorem paginate_bounds:
  assumes "1 \<le> lmt" and "1 \<le> pg" and "paginate ds ds' f lmt pg = Inr r"
  shows "0 \<le> int (length (data r)) \<and> int (length (data r)) \<le> lmt
       \<and> countMatching ds f = Inr (totalCount (paginateMeta r))
       \<and> pageCount (paginateMeta r)
           = \<lceil>real_of_int (totalCount (paginateMeta r)) / real_of_int lmt\<rceil>
       \<and> lmt * (pageCount (paginateMeta r) - 1) < totalCount (paginateMeta r)
       \<and> totalCount (paginateMeta r) \<le> lmt * pageCount (paginateMeta r)
       \<and> (totalCount (paginateMeta r) = 0 \<longrightarrow> pageCount (paginateMeta r) = 0)"
proof -
  from assms(3) obtain rs rs' p where ds: "ds = Store rs" and f: "f = Matching p"
    and r: "r = \<lparr>data = take (nat lmt) (drop (nat ((pg - 1) * lmt)) (filter p rs')),
              paginateMeta = \<lparr>totalCount = int (length (filter p rs)), page = pg, limit = lmt,
                pageCount = \<lceil>real_of_int (int (length (filter p rs))) / real_of_int lmt\<rceil>\<rparr>\<rparr>"
    by (rule paginate_Inr)
  have len: "int (length (data r)) \<le> lmt"
    using assms(1) by (simp add: r)
  have cnt: "countMatching ds f = Inr (totalCount (paginateMeta r))"
    by (simp add: ds f r countMatching_def)
  have pc: "pageCount (paginateMeta r)
      = \<lceil>real_of_int (totalCount (paginateMeta r)) / real_of_int lmt\<rceil>"
    by (simp add: r)
  have lo: "lmt * (pageCount (paginateMeta r) - 1) < totalCount (paginateMeta r)"
    unfolding pc by (rule ceiling_quotient_bounds(1) [OF assms(1)])
  have hi: "totalCount (paginateMeta r) \<le> lmt * pageCount (paginateMeta r)"
    unfolding pc by (rule ceiling_quotient_bounds(2) [OF assms(1)])
  have zero: "totalCount (paginateMeta r) = 0 \<longrightarrow> pageCount (paginateMeta r) = 0"
    by (simp add: pc)
  from len cnt pc lo hi zero show ?thesis by simp
qed

theorem paginate_bounds_witness:
  "paginate (Store [1, 2, 3, 4, 5 :: int]) (Store [1, 2, 3, 4, 5]) (Matching (\<lambda>r. True)) 2 2
     = Inr \<lparr>data = [3, 4],
            paginateMeta = \<lparr>totalCount = 5, page = 2, limit = 2, pageCount = 3\<rparr>\<rparr>
   \<and> int (length [3, 4 :: int]) \<le> 2 \<and> (2::int) * (3 - 1) < 5 \<and> (5::int) \<le> 2 * 3"
proof -
  have run: "paginate (Store [1, 2, 3, 4, 5 :: int]) (Store [1, 2, 3, 4, 5])
       (Matching (\<lambda>r. True)) 2 2
     = Inr \<lparr>data = [3, 4],
            paginateMeta = \<lparr>totalCount = 5, page = 2, limit = 2, pageCount = 3\<rparr>\<rparr>"
    by (simp add: paginate_def countMatching_def fetch_def)
  have l: "(1::int) \<le> 2" by simp
  from paginate_bounds [OF l l run] run show ?thesis by simp
qed

text \<open>
  C4 (as the model of the specification has it). For every call of \<^verbatim>\<open>paginate\<close> with
  \<open>limit \<ge> 1\<close> in which the filter matches \<open>totalCount > 0\<close> records and \<open>page\<close> is beyond
  the last page, the call succeeds with no items and with the metadata of the request,
  provided that the store, when the items are fetched, is reachable and holds no more
  matching records than were counted; this is so in particular when nothing is written
  between the two reads.
\<close>

theorem paginate_beyond_last_page:
  assumes "1 \<le> lmt" and "countMatching ds f = Inr cnt" and "0 < cnt"
    and "\<lceil>real_of_int cnt / real_of_int lmt\<rceil> < pg"
    and "countMatching ds' f = Inr cnt'" and "cnt' \<le> cnt"
  shows "paginate ds ds' f lmt pg
       = Inr \<lparr>data = [],
              paginateMeta = \<lparr>totalCount = cnt, page = pg, limit = lmt,
                              pageCount = \<lceil>real_of_int cnt / real_of_int lmt\<rceil>\<rparr>\<rparr>
       \<and> paginate ds ds f lmt pg
       = Inr \<lparr>data = [],
              paginateMeta = \<lparr>totalCount = cnt, page = pg, limit = lmt,
                              pageCount = \<lceil>real_of_int cnt / real_of_int lmt\<rceil>\<rparr>\<rparr>"
proof -
  from assms(2) obtain rs p where ds: "ds = Store rs" and f: "f = Matching p"
    and cnt: "cnt = int (length (filter p rs))"
    by (cases ds; cases f) (auto simp: countMatching_def)
  from assms(5) f obtain rs' where ds': "ds' = Store rs'"
    and cnt': "cnt' = int (length (filter p rs'))"
    by (cases ds') (auto simp: countMatching_def)
  have "cnt \<le> lmt * \<lceil>real_of_int cnt / real_of_int lmt\<rceil>"
    by (rule ceiling_quotient_bounds(2) [OF assms(1)])
  also have "\<dots> \<le> lmt * (pg - 1)"
    using assms(1,4) by (intro mult_left_mono) simp_all
  finally have skip: "cnt \<le> (pg - 1) * lmt" by (simp add: mult.commute)
  then have same: "length (filter p rs) \<le> nat ((pg - 1) * lmt)"
    by (simp add: cnt)
  from skip assms(6) have "cnt' \<le> (pg - 1) * lmt" by simp
  then have later: "length (filter p rs') \<le> nat ((pg - 1) * lmt)"
    by (simp add: cnt')
  from same later show ?thesis
    by (simp add: paginate_def countMatching_def fetch_def ds ds' f cnt)
qed

theorem paginate_beyond_last_page_witness:
  "paginate (Store [1, 2, 3, 4, 5 :: int]) (Store [1, 2, 3, 5]) everyRecord 2 4
     = Inr \<lparr>data = [],
            paginateMeta = \<lparr>totalCount = 5, page = 4, limit = 2, pageCount = 3\<rparr>\<rparr>
   \<and> paginate (Store [1, 2, 3, 4, 5 :: int]) (Store [1, 2, 3, 4, 5]) everyRecord 2 4
     = Inr \<lparr>data = [],
            paginateMeta = \<lparr>totalCount = 5, page = 4, limit = 2, pageCount = 3\<rparr>\<rparr>"
proof -
  have l: "(1::int) \<le> 2" by simp
  have c: "countMatching (Store [1, 2, 3, 4, 5 :: int]) everyRecord = Inr 5"
    by (simp add: countMatching_def everyRecord_def)
  have p: "(0::int) < 5" by simp
  have b: "\<lceil>real_of_int 5 / real_of_int 2\<rceil> < (4::int)" by simp
  have c': "countMatching (Store [1, 2, 3, 5 :: int]) everyRecord = Inr 4"
    by (simp add: countMatching_def everyRecord_def)
  have le: "(4::int) \<le> 5" by simp
  from paginate_beyond_last_page [OF l c p b c' le] show ?thesis by simp
qed

text \<open>
  C4 as the specification states it fails, the two reads not being linked: five records
  are counted, so that page 4 of 2 items is beyond the last page, but two records are
  inserted before the fetch and the call returns an item; or the store is lost before the
  fetch and the call fails.
\<close>

theorem paginate_beyond_last_page_counterexample:
  "countMatching (Store [1, 2, 3, 4, 5 :: int]) everyRecord = Inr 5
   \<and> \<lceil>real_of_int 5 / real_of_int 2\<rceil> < (4 :: int)
   \<and> paginate (Store [1, 2, 3, 4, 5 :: int]) (Store [1, 2, 3, 4, 5, 6, 7]) everyRecord 2 4
       = Inr \<lparr>data = [7],
              paginateMeta = \<lparr>totalCount = 5, page = 4, limit = 2, pageCount = 3\<rparr>\<rparr>
   \<and> paginate (Store [1, 2, 3, 4, 5 :: int]) (Unreachable boom) everyRecord 2 4 = Inl boom"
  by (simp add: paginate_def countMatching_def fetch_def everyRecord_def)

section \<open>The collection read\<close>

text \<open>
  C9. When the pagination query of a collection read fails, \<^verbatim>\<open>listCourses\<close> sends exactly
  one envelope, with the code \<^verbatim>\<open>INTERNAL_SERVER_ERROR\<close> and the stack trace of the cause as
  its data; when the query succeeds it sends exactly one envelope, with the code \<^verbatim>\<open>OK\<close>,
  the items as its data and the page metadata, under the key \<^verbatim>\<open>paginate\<close>, as its meta. It
  never calls \<^verbatim>\<open>next\<close>. Every envelope on the response is sent by the handler: the
  pagination engine returns a value and has no access to the response.
\<close>

theorem listCourses_envelopes:
  "(Courses_paginate (aggregate q) (queryLimit q) (queryPage q) = Inl err \<longrightarrow>
      sent (listCourses Courses_paginate q res)
        = sent res @ [Send (Text (stack err)) INTERNAL_SERVER_ERROR None])
   \<and> (Courses_paginate (aggregate q) (queryLimit q) (queryPage q) = Inr result \<longrightarrow>
      sent (listCourses Courses_paginate q res)
        = sent res @ [Send (Items (data result)) OK (Some [(''paginate'', paginateMeta result)])])
   \<and> length (sent (listCourses Courses_paginate q res)) = Suc (length (sent res))
   \<and> nextCalls (listCourses Courses_paginate q res) = nextCalls res"
  by (simp add: listCourses_def send_def split: sum.split)

theorem listCourses_envelopes_witness:
  "sent (listCourses (paginate (Unreachable boom) (Unreachable boom))
           \<lparr>aggregate = Matching (\<lambda>r::int. True), queryLimit = 2, queryPage = 1\<rparr> fresh)
     = [Send (Text ''Error: connection refused at connect'') INTERNAL_SERVER_ERROR None]
   \<and> sent (listCourses (paginate (Store [1, 2, 3, 4, 5 :: int]) (Store [1, 2, 3, 4, 5]))
           \<lparr>aggregate = Matching (\<lambda>r. True), queryLimit = 2, queryPage = 2\<rparr> fresh)
     = [Send (Items [3, 4]) OK
          (Some [(''paginate'', \<lparr>totalCount = 5, page = 2, limit = 2, pageCount = 3\<rparr>)])]"
proof -
  have a: "paginate (Unreachable boom) (Unreachable boom) (Matching (\<lambda>r::int. True)) 2 1
     = Inl boom"
    by (simp add: paginate_def countMatching_def)
  have b: "paginate (Store [1, 2, 3, 4, 5 :: int]) (Store [1, 2, 3, 4, 5])
       (Matching (\<lambda>r. True)) 2 2
     = Inr \<lparr>data = [3, 4],
            paginateMeta = \<lparr>totalCount = 5, page = 2, limit = 2, pageCount = 3\<rparr>\<rparr>"
    by (simp add: paginate_def countMatching_def fetch_def)
  from listCourses_envelopes [of "paginate (Unreachable boom) (Unreachable boom)"
      "\<lparr>aggregate = Matching (\<lambda>r::int. True), queryLimit = 2, queryPage = 1\<rparr>" boom fresh]
    listCourses_envelopes [of "paginate (Store [1, 2, 3, 4, 5 :: int]) (Store [1, 2, 3, 4, 5])"
      "\<lparr>aggregate = Matching (\<lambda>r. True), queryLimit = 2, queryPage = 2\<rparr>" _ fresh
      "\<lparr>data = [3, 4],
         paginateMeta = \<lparr>totalCount = 5, page = 2, limit = 2, pageCount = 3\<rparr>\<rparr>"]
    a b
  show ?thesis by (simp add: fresh_def boom_def)
qed

section \<open>The artist update validator\<close>














end
